theory Spec2Isabelle
  imports Main "HOL-Library.AList" "HOL-Library.Word"
begin

section \<open>The component manager of fizzle\<close>

text \<open>
  The Go package \<open>component\<close> keeps a \<open>Manager\<close> that loads component prototypes from
  JSON files, registers them in a map from names to \<open>*Component\<close>, and clones renderable
  instances from them. This theory embeds the Manager (source file \<open>part_000\<close>):
  \<^item> a \<open>*Component\<close> is an address into an explicit heap, so that two names may share one
    component and a later mutation is seen through every pointer; Go's \<open>nil\<close> is not an
    address, and the store holds addresses only;
  \<^item> \<open>Manager.storage\<close> is an association list read with \<open>map_of\<close> and written with
    \<open>AList.update\<close> (Go's \<open>m[k] = v\<close>); the order of the list is the order in which
    \<open>range\<close> visits the map, which Go leaves unspecified;
  \<^item> the file system, the JSON decoder, the mesh decoder, the texture manager and the
    construction of a component's renderable are outside the Manager and are parameters;
  \<^item> errors are their messages, built as \<open>fmt.Errorf\<close> builds them; log lines are pairs of
    a level and the formatted message.
\<close>

subsection \<open>Data model\<close>

type_synonym addr = nat

text \<open>
  A \<open>float32\<close> is only ever copied by the Manager, never computed with: it is modelled by
  its bit pattern. The zero value of Go is the pattern 0.
\<close>

type_synonym float32 = "32 word"

type_synonym Vec3 = "float32 \<times> float32 \<times> float32"

fun vec_get :: "Vec3 \<Rightarrow> nat \<Rightarrow> float32" where
  "vec_get (a, b, c) i = (if i = 0 then a else if i = 1 then b else c)"

fun vec_set :: "Vec3 \<Rightarrow> nat \<Rightarrow> float32 \<Rightarrow> Vec3" where
  "vec_set (a, b, c) i v = (if i = 0 then (v, b, c) else if i = 1 then (a, v, c) else (a, b, v))"

text \<open>
  Modelled from the spec: the declarations of \<open>Component\<close>, \<open>Mesh\<close>, the material and the
  child reference are in no source file at hand. The fields are those the Manager reads
  and writes, with the types the spec's data model gives them. The decoded mesh
  (\<open>SrcMesh\<close>) is opaque to the Manager. The fields \<open>Name\<close> and \<open>Material\<close> of a mesh
  are \<open>Mesh_Name\<close> and \<open>Mesh_Material\<close> here, and the field \<open>Location\<close> of a renderable
  is \<open>rLocation\<close>, since \<open>Name\<close> and \<open>Location\<close> are fields of the component and of
  the child reference.
\<close>

record Material =
  Textures :: "string list"
  DiffuseTexture :: string
  NormalsTexture :: string
  SpecularTexture :: string

record Mesh =
  Mesh_Name :: string
  BinFile :: string
  SrcMesh :: "string option"
  Mesh_Material :: Material
  Parent :: addr

record ChildRef =
  File :: string
  Location :: Vec3

record Component =
  Name :: string
  Offset :: Vec3
  Meshes :: "Mesh list"
  ChildReferences :: "ChildRef list"
  componentDirPath :: string

text \<open>
  Modelled from the spec: \<open>fizzle.Renderable\<close> is declared outside the source files at
  hand. A renderable has a location, children, and a core that stands for the GPU
  buffers its clones share.
\<close>

datatype Renderable = Renderable (rLocation: Vec3) (Children: "Renderable list") (Core: nat)

text \<open>
  Modelled from the spec: \<open>Renderable.Clone\<close> copies the transform and the children and
  shares the core; \<open>Renderable.AddChild\<close> attaches a child after the existing ones.
\<close>

fun Clone :: "Renderable \<Rightarrow> Renderable" where
  "Clone (Renderable loc cs core) = Renderable loc (map Clone cs) core"

fun AddChild :: "Renderable \<Rightarrow> Renderable \<Rightarrow> Renderable" where
  "AddChild (Renderable loc cs core) child = Renderable loc (cs @ [child]) core"

fun set_rLocation :: "Renderable \<Rightarrow> nat \<Rightarrow> float32 \<Rightarrow> Renderable" where
  "set_rLocation (Renderable loc cs core) i v = Renderable (vec_set loc i v) cs core"

text \<open>
  What the Manager observes of its run: the writes to \<open>storage\<close> made by a load and the
  recursive loads it starts for child references, in the order they happen.
\<close>

datatype event =
  EvStore string addr
  | EvLoadChild string string

text \<open>
  The Manager and the heap it points into. \<open>storage\<close> and \<open>textureManager\<close> are the
  fields of the Go struct (\<open>loadedShaders\<close> is only handed to the construction of
  renderables, a parameter below). \<open>log\<close> is the output of groggy, \<open>trace\<close> the events
  above, \<open>destroyed\<close> the components on which \<open>Component.Destroy\<close> was invoked.
\<close>

record 'tm state =
  storage :: "(string \<times> addr) list"
  textureManager :: 'tm
  heap :: "addr \<Rightarrow> Component"
  next_addr :: addr
  log :: "(string \<times> string) list"
  trace :: "event list"
  destroyed :: "addr list"

text \<open>
  The collaborators. \<open>ReadFile\<close> is \<open>ioutil.ReadFile\<close>, \<open>Unmarshal\<close> is \<open>json.Unmarshal\<close>
  into a new \<open>Component\<close>, \<open>DecodeMesh\<close> is \<open>gombz.DecodeMesh\<close>: each gives the error
  message (\<open>Inl\<close>) or the result. \<open>LoadTexture\<close> is the texture manager's method, with
  the texture manager's own state passed through. \<open>GetFullTexturePath\<close> is the method of
  \<open>Mesh\<close> of that name and \<open>GetRenderable\<close> the method of \<open>Component\<close> (called with the
  Manager's texture manager and shaders).
\<close>

record 'tm env =
  ReadFile :: "string \<Rightarrow> string + string"
  Unmarshal :: "string \<Rightarrow> string + Component"
  DecodeMesh :: "string \<Rightarrow> string + string"
  LoadTexture :: "'tm \<Rightarrow> string \<Rightarrow> string \<Rightarrow> (string + nat) \<times> 'tm"
  GetFullTexturePath :: "(addr \<Rightarrow> Component) \<Rightarrow> Mesh \<Rightarrow> nat \<Rightarrow> string"
  GetRenderable :: "Component \<Rightarrow> Renderable"

subsection \<open>Library functions\<close>

text \<open>
  \<open>filepath.Split\<close> on a system whose separator is the slash: the path is cut right after
  its last separator; without a separator the directory is empty.
\<close>

definition filepath_Split :: "string \<Rightarrow> string \<times> string" where
  "filepath_Split path =
     (rev (dropWhile (\<lambda>c. c \<noteq> CHR ''/'') (rev path)),
      rev (takeWhile (\<lambda>c. c \<noteq> CHR ''/'') (rev path)))"

text \<open>The verb \<open>%d\<close> of \<open>fmt\<close> on a non-negative integer.\<close>

definition digit_char :: "nat \<Rightarrow> char" where
  "digit_char d = char_of (48 + d)"

function string_of_nat :: "nat \<Rightarrow> string" where
  "string_of_nat n =
     (if n < 10 then [digit_char n] else string_of_nat (n div 10) @ [digit_char (n mod 10)])"
  by pat_completeness auto
termination
  by (relation "measure id") auto

declare string_of_nat.simps [simp del]

definition Logsf :: "string \<Rightarrow> string \<Rightarrow> 'tm state \<Rightarrow> 'tm state" where
  "Logsf level msg s = s\<lparr>log := log s @ [(level, msg)]\<rparr>"

subsection \<open>The store\<close>

definition NewManager :: "'tm \<Rightarrow> (addr \<Rightarrow> Component) \<Rightarrow> addr \<Rightarrow> 'tm state" where
  "NewManager tm h n =
     \<lparr>storage = [], textureManager = tm, heap = h, next_addr = n,
      log = [], trace = [], destroyed = []\<rparr>"

text \<open>
  Modelled from the spec: \<open>Component.Destroy\<close> is declared outside the source files at
  hand; it releases the GPU buffers the component owns. The model records the call.
\<close>

definition Component_Destroy :: "addr \<Rightarrow> 'tm state \<Rightarrow> 'tm state" where
  "Component_Destroy c s = s\<lparr>destroyed := destroyed s @ [c]\<rparr>"

definition Destroy :: "'tm state \<Rightarrow> 'tm state" where
  "Destroy s = (fold (\<lambda>(_, c). Component_Destroy c) (storage s) s)\<lparr>storage := []\<rparr>"

definition AddComponent :: "string \<Rightarrow> addr \<Rightarrow> 'tm state \<Rightarrow> 'tm state" where
  "AddComponent name component s = s\<lparr>storage := AList.update name component (storage s)\<rparr>"

text \<open>\<open>GetComponent\<close> returns the pointer (\<open>None\<close> is Go's \<open>nil\<close>) and the flag \<open>okay\<close>.\<close>

definition GetComponent :: "'tm state \<Rightarrow> string \<Rightarrow> addr option \<times> bool" where
  "GetComponent s name =
     (case map_of (storage s) name of
        Some crComponent \<Rightarrow> (Some crComponent, True)
      | None \<Rightarrow> (None, False))"

subsection \<open>Loading\<close>

text \<open>
  Modelled from the spec: \<open>Mesh.GetFullBinFilePath\<close> is declared outside the source files
  at hand; the binary file is read from the owning component's directory path followed
  by \<open>BinFile\<close>.
\<close>

definition GetFullBinFilePath :: "(addr \<Rightarrow> Component) \<Rightarrow> Mesh \<Rightarrow> string" where
  "GetFullBinFilePath h compMesh = componentDirPath (h (Parent compMesh)) @ BinFile compMesh"

text \<open>
  \<open>loadMeshForComponent\<close> writes through its \<open>*Mesh\<close>; the model returns the mesh as
  written, or the error.
\<close>

definition loadMeshForComponent ::
  "'tm env \<Rightarrow> (addr \<Rightarrow> Component) \<Rightarrow> addr \<Rightarrow> Mesh \<Rightarrow> string + Mesh" where
  "loadMeshForComponent env h component compMesh0 =
     (let compMesh = compMesh0\<lparr>Parent := component\<rparr> in
      if length (BinFile compMesh) > 0 then
        (case ReadFile env (GetFullBinFilePath h compMesh) of
           Inl err \<Rightarrow>
             Inl (''Failed to load the binary file ('' @ BinFile compMesh
                  @ '') for the ComponentMesh.'' @ [CHR 0x0A] @ err @ [CHR 0x0A])
         | Inr binBytes \<Rightarrow>
             (case DecodeMesh env binBytes of
                Inl err \<Rightarrow>
                  Inl (''Failed to deocde the binary file ('' @ BinFile compMesh
                       @ '') for the ComponentMesh.'' @ [CHR 0x0A] @ err @ [CHR 0x0A])
              | Inr m \<Rightarrow> Inr (compMesh\<lparr>SrcMesh := Some m\<rparr>)))
      else Inr compMesh)"

text \<open>The first loop of \<open>LoadComponentFromBytes\<close>: it returns at the first error.\<close>

fun loadMeshes ::
  "'tm env \<Rightarrow> (addr \<Rightarrow> Component) \<Rightarrow> addr \<Rightarrow> Mesh list \<Rightarrow> string + Mesh list" where
  "loadMeshes env h component [] = Inr []"
| "loadMeshes env h component (compMesh # rest) =
     (case loadMeshForComponent env h component compMesh of
        Inl err \<Rightarrow> Inl err
      | Inr m \<Rightarrow>
          (case loadMeshes env h component rest of
             Inl err \<Rightarrow> Inl err
           | Inr ms \<Rightarrow> Inr (m # ms)))"

text \<open>
  One call of \<open>LoadTexture\<close> with the two log lines that follow it; \<open>what\<close> is the word
  that differs between the four call sites.
\<close>

definition loadOneTexture ::
  "'tm env \<Rightarrow> nat \<Rightarrow> string \<Rightarrow> string \<Rightarrow> string \<Rightarrow> string \<Rightarrow> 'tm state \<Rightarrow> 'tm state" where
  "loadOneTexture env meshIndex failed loaded key path s =
     (case LoadTexture env (textureManager s) key path of
        (Inl err, tm) \<Rightarrow>
          Logsf ''ERROR'' (''Mesh #'' @ string_of_nat meshIndex @ failed @ key)
            (s\<lparr>textureManager := tm\<rparr>)
      | (Inr tex, tm) \<Rightarrow>
          Logsf ''DEBUG'' (''Mesh #'' @ string_of_nat meshIndex @ loaded @ key)
            (s\<lparr>textureManager := tm\<rparr>))"

text \<open>The inner loop over \<open>compMesh.Material.Textures\<close>, from index \<open>i\<close> on.\<close>

fun loadTextureList ::
  "'tm env \<Rightarrow> nat \<Rightarrow> Mesh \<Rightarrow> nat \<Rightarrow> string list \<Rightarrow> 'tm state \<Rightarrow> 'tm state" where
  "loadTextureList env meshIndex compMesh i [] s = s"
| "loadTextureList env meshIndex compMesh i (t # ts) s =
     loadTextureList env meshIndex compMesh (Suc i) ts
       (loadOneTexture env meshIndex '' failed to load texture: '' '' loaded texture: ''
          t (GetFullTexturePath env (heap s) compMesh i) s)"

definition loadMeshTextures :: "'tm env \<Rightarrow> nat \<Rightarrow> Mesh \<Rightarrow> 'tm state \<Rightarrow> 'tm state" where
  "loadMeshTextures env meshIndex compMesh s0 =
     (let mat = Mesh_Material compMesh;
          s1 = loadTextureList env meshIndex compMesh 0 (Textures mat) s0;
          s2 = (if length (DiffuseTexture mat) > 0 then
                  loadOneTexture env meshIndex
                    '' failed to load diffuse texture: '' '' loaded diffuse texture: ''
                    (DiffuseTexture mat)
                    (componentDirPath (heap s1 (Parent compMesh)) @ DiffuseTexture mat) s1
                else s1);
          s3 = (if length (NormalsTexture mat) > 0 then
                  loadOneTexture env meshIndex
                    '' failed to load normal map texture: '' '' loaded normal map texture: ''
                    (NormalsTexture mat)
                    (componentDirPath (heap s2 (Parent compMesh)) @ NormalsTexture mat) s2
                else s2)
      in if length (SpecularTexture mat) > 0 then
           loadOneTexture env meshIndex
             '' failed to load specular map texture: '' '' loaded specular map texture: ''
             (SpecularTexture mat)
             (componentDirPath (heap s3 (Parent compMesh)) @ SpecularTexture mat) s3
         else s3)"

text \<open>The second loop of \<open>LoadComponentFromBytes\<close>, from mesh index \<open>meshIndex\<close> on.\<close>

fun loadTextures :: "'tm env \<Rightarrow> nat \<Rightarrow> Mesh list \<Rightarrow> 'tm state \<Rightarrow> 'tm state" where
  "loadTextures env meshIndex [] s = s"
| "loadTextures env meshIndex (compMesh # rest) s =
     loadTextures env (Suc meshIndex) rest (loadMeshTextures env meshIndex compMesh s)"

text \<open>
  \<open>LoadComponentFromFile\<close> and \<open>LoadComponentFromBytes\<close> call each other through the loop
  over the child references (\<open>loadChildren\<close>). The first argument bounds the depth of
  nested calls: each call of one of the two functions uses one unit, and \<open>None\<close> means
  that the bound was reached. A result is the error message or the pointer to the
  component, with the state after the call. The parameter \<open>componentDirPath\<close> of the
  source is \<open>dirPath\<close> here, the field of that name keeping its name.
\<close>

function (sequential) LoadComponentFromFile ::
  "nat \<Rightarrow> 'tm env \<Rightarrow> 'tm state \<Rightarrow> string \<Rightarrow> string \<Rightarrow> ((string + addr) \<times> 'tm state) option"
and LoadComponentFromBytes ::
  "nat \<Rightarrow> 'tm env \<Rightarrow> 'tm state \<Rightarrow> string \<Rightarrow> string \<Rightarrow> string
     \<Rightarrow> ((string + addr) \<times> 'tm state) option"
and loadChildren ::
  "nat \<Rightarrow> 'tm env \<Rightarrow> string \<Rightarrow> string \<Rightarrow> addr \<Rightarrow> ChildRef list \<Rightarrow> 'tm state
     \<Rightarrow> 'tm state option"
where
  "LoadComponentFromFile 0 env s filename storageName = None"
| "LoadComponentFromFile (Suc fuel) env s filename storageName =
     (let dirPath = fst (filepath_Split filename) in
      case map_of (storage s) storageName of
        Some loadedComp \<Rightarrow> Some (Inr loadedComp, s)
      | None \<Rightarrow>
          (case ReadFile env filename of
             Inl err \<Rightarrow>
               Some (Inl (''Failed to read the component file specified.'' @ [CHR 0x0A]
                          @ err @ [CHR 0x0A]), s)
           | Inr jsonBytes \<Rightarrow>
               LoadComponentFromBytes fuel env s jsonBytes storageName dirPath))"
| "LoadComponentFromBytes 0 env s jsonBytes storageName dirPath = None"
| "LoadComponentFromBytes (Suc fuel) env s jsonBytes storageName dirPath =
     (case Unmarshal env jsonBytes of
        Inl err \<Rightarrow>
          Some (Inl (''Failed to decode the JSON in the component file specified.''
                     @ [CHR 0x0A] @ err @ [CHR 0x0A]), s)
      | Inr decoded \<Rightarrow>
          (let component = next_addr s;
               s1 = s\<lparr>heap := (heap s)(component := decoded\<lparr>componentDirPath := dirPath\<rparr>),
                       next_addr := Suc component\<rparr>
           in case loadMeshes env (heap s1) component (Meshes (heap s1 component)) of
                Inl err \<Rightarrow> Some (Inl err, s1)
              | Inr ms \<Rightarrow>
                  (let s2 = s1\<lparr>heap := (heap s1)(component := (heap s1 component)\<lparr>Meshes := ms\<rparr>)\<rparr>;
                       s3 = loadTextures env 0 (Meshes (heap s2 component)) s2;
                       s4 = s3\<lparr>storage := AList.update storageName component (storage s3),
                               trace := trace s3 @ [EvStore storageName component]\<rparr>
                   in case loadChildren fuel env dirPath storageName component
                             (ChildReferences (heap s4 component)) s4 of
                        None \<Rightarrow> None
                      | Some s5 \<Rightarrow>
                          Some (Inr component,
                                Logsf ''DEBUG''
                                  (''Component '' @ [CHR 0x22] @ Name (heap s5 component)
                                   @ [CHR 0x22] @ '' has been loaded'') s5))))"
| "loadChildren fuel env dirPath storageName component [] s = Some s"
| "loadChildren fuel env dirPath storageName component (childRef # rest) s =
     (let childFileName = snd (filepath_Split (File childRef)) in
      case map_of (storage s) childFileName of
        Some c \<Rightarrow> loadChildren fuel env dirPath storageName component rest s
      | None \<Rightarrow>
          (case LoadComponentFromFile fuel env
                  (s\<lparr>trace := trace s @ [EvLoadChild (dirPath @ File childRef) storageName]\<rparr>)
                  (dirPath @ File childRef) storageName of
             None \<Rightarrow> None
           | Some (Inl err, s') \<Rightarrow>
               loadChildren fuel env dirPath storageName component rest
                 (Logsf ''ERROR''
                    (''Component '' @ Name (heap s' component) @ '' has a ChildInstance (''
                     @ File childRef @ '') could not be loaded.'' @ [CHR 0x0A] @ err) s')
           | Some (Inr c, s') \<Rightarrow>
               loadChildren fuel env dirPath storageName component rest s'))"

  by pat_completeness auto
termination
  by (relation "measures
        [case_sum (\<lambda>(fuel, _). fuel) (case_sum (\<lambda>(fuel, _). fuel) (\<lambda>(fuel, _). fuel)),
         case_sum (\<lambda>_. 0) (case_sum (\<lambda>_. 0)
           (\<lambda>(fuel, env, dirPath, storageName, component, crefs, s). Suc (length crefs)))]")
     auto

subsection \<open>Instancing\<close>

text \<open>
  \<open>GetRenderableInstance\<close> follows the child references through the store, and a
  component may be reached from itself; the first argument bounds the depth of nested
  calls, and \<open>None\<close> means that the bound was reached. \<open>cloneChildren\<close> is the loop over
  the child references, with the renderable \<open>r\<close> built so far. \<open>GetComponent\<close> gives a
  pointer exactly when its flag is set; every other answer takes the branch of
  \<open>!okay\<close>.
\<close>

function (sequential) GetRenderableInstance ::
  "nat \<Rightarrow> 'tm env \<Rightarrow> 'tm state \<Rightarrow> addr \<Rightarrow> (Renderable \<times> 'tm state) option"
and cloneChildren ::
  "nat \<Rightarrow> 'tm env \<Rightarrow> addr \<Rightarrow> ChildRef list \<Rightarrow> Renderable \<Rightarrow> 'tm state
     \<Rightarrow> (Renderable \<times> 'tm state) option"
where
  "GetRenderableInstance 0 env s component = None"
| "GetRenderableInstance (Suc fuel) env s component =
     (let compRenderable = GetRenderable env (heap s component);
          r = Clone compRenderable
      in cloneChildren fuel env component (ChildReferences (heap s component)) r s)"
| "cloneChildren fuel env component [] r s = Some (r, s)"
| "cloneChildren fuel env component (cref # rest) r s =
     (let childFileName = snd (filepath_Split (File cref)) in
      case GetComponent s childFileName of
        (Some crComponent, True) \<Rightarrow>
          (case GetRenderableInstance fuel env s crComponent of
             None \<Rightarrow> None
           | Some (rc, s') \<Rightarrow>
               (let rc0 = set_rLocation rc 0 (vec_get (Location cref) 0);
                    rc1 = set_rLocation rc0 1 (vec_get (Location cref) 1);
                    rc2 = set_rLocation rc1 2 (vec_get (Location cref) 2)
                in cloneChildren fuel env component rest (AddChild r rc2) s'))
      | _ \<Rightarrow>
          cloneChildren fuel env component rest r
            (Logsf ''ERROR''
               (''GetRenderableInstance: Component '' @ Name (heap s component)
                @ '' has a ChildInstance ('' @ File cref @ '') that wasn'' @ [CHR 0x27]
                @ ''t loaded.'' @ [CHR 0x0A]) s))"
  by pat_completeness auto
termination
  by (relation "measures
        [case_sum (\<lambda>(fuel, _). fuel) (\<lambda>(fuel, _). fuel),
         case_sum (\<lambda>_. 0) (\<lambda>(fuel, env, component, crefs, r, s). Suc (length crefs))]")
     auto

subsection \<open>Vocabulary of the properties\<close>

text \<open>
  A mesh entry fails to load when it names a binary file that cannot be read from the
  component's directory or whose bytes cannot be decoded. \<open>names_file\<close> says that an
  error message is one of the two messages of \<open>loadMeshForComponent\<close> for that file.
\<close>

definition mesh_fails :: "'tm env \<Rightarrow> string \<Rightarrow> Mesh \<Rightarrow> bool" where
  "mesh_fails env dirPath m =
     (BinFile m \<noteq> [] \<and>
      (case ReadFile env (dirPath @ BinFile m) of
         Inl err \<Rightarrow> True
       | Inr binBytes \<Rightarrow> (case DecodeMesh env binBytes of Inl err \<Rightarrow> True | Inr d \<Rightarrow> False)))"

definition names_file :: "string \<Rightarrow> string \<Rightarrow> bool" where
  "names_file msg file = (\<exists>cause.
      msg = ''Failed to load the binary file ('' @ file @ '') for the ComponentMesh.''
              @ [CHR 0x0A] @ cause @ [CHR 0x0A] \<or>
      msg = ''Failed to deocde the binary file ('' @ file @ '') for the ComponentMesh.''
              @ [CHR 0x0A] @ cause @ [CHR 0x0A])"

text \<open>
  The child references a load has to fetch, given the store it sees, as the events of
  the recursive loads it starts; and the check that in a sequence of events every
  recursive load under a storage name comes after a write of that name to the store.
\<close>

definition childLoads :: "string \<Rightarrow> string \<Rightarrow> (string \<times> addr) list \<Rightarrow> ChildRef list \<Rightarrow> event list" where
  "childLoads dirPath storageName st crefs =
     map (\<lambda>cr. EvLoadChild (dirPath @ File cr) storageName)
       (filter (\<lambda>cr. map_of st (snd (filepath_Split (File cr))) = None) crefs)"

fun stored_before_loads :: "string list \<Rightarrow> event list \<Rightarrow> bool" where
  "stored_before_loads known [] = True"
| "stored_before_loads known (EvStore name p # es) = stored_before_loads (name # known) es"
| "stored_before_loads known (EvLoadChild path name # es) =
     (name \<in> set known \<and> stored_before_loads known es)"

text \<open>
  The child references that \<open>GetRenderableInstance\<close> finds in the store, the line it
  logs for one that it does not find, and the components whose chains of child
  references through the store end within \<open>n\<close> nested calls.
\<close>

definition resolvable :: "(string \<times> addr) list \<Rightarrow> ChildRef list \<Rightarrow> ChildRef list" where
  "resolvable st crefs = filter (\<lambda>cr. map_of st (snd (filepath_Split (File cr))) \<noteq> None) crefs"

definition msgNotLoaded :: "string \<Rightarrow> string \<Rightarrow> string" where
  "msgNotLoaded name file =
     ''GetRenderableInstance: Component '' @ name @ '' has a ChildInstance ('' @ file
     @ '') that wasn'' @ [CHR 0x27] @ ''t loaded.'' @ [CHR 0x0A]"

fun resolves_within :: "nat \<Rightarrow> (string \<times> addr) list \<Rightarrow> (addr \<Rightarrow> Component) \<Rightarrow> addr \<Rightarrow> bool" where
  "resolves_within 0 st h p = False"
| "resolves_within (Suc n) st h p =
     list_all (\<lambda>cr. case map_of st (snd (filepath_Split (File cr))) of
                      None \<Rightarrow> True
                    | Some q \<Rightarrow> resolves_within n st h q)
       (ChildReferences (h p))"

text \<open>
  What instancing leaves alone: the store and the heap; the log only grows.
\<close>

definition unchanged :: "'tm state \<Rightarrow> 'tm state \<Rightarrow> bool" where
  "unchanged s s' = (storage s' = storage s \<and> heap s' = heap s \<and> (\<exists>more. log s' = log s @ more))"

subsection \<open>Example data\<close>

text \<open>
  Two components that reference each other, a table with a mesh, textures and child
  references (a leg listed twice, once without a location, and a file that is not
  loaded), two components with a mesh whose binary file is missing, and a component
  that lists a file that is not there and its own file, with the state that loading it
  from its file gives. In \<open>ex_env\<close> the file system holds the component files
  \<open>A.json\<close>, \<open>B.json\<close> and \<open>self.json\<close> and the table's mesh, the contents of a component file stand for its JSON text, and the
  texture manager fails on every texture. A location is the bit pattern of its
  \<open>float32\<close> components: \<open>0x3F800000\<close> is 1.0 and \<open>0x40000000\<close> is 2.0.
\<close>

definition ex_heap :: "addr \<Rightarrow> Component" where
  "ex_heap = (\<lambda>a. \<lparr>Name = [], Offset = (0, 0, 0), Meshes = [], ChildReferences = [],
                    componentDirPath = []\<rparr>)"

definition ex_A :: Component where
  "ex_A = \<lparr>Name = ''A'', Offset = (0, 0, 0), Meshes = [],
           ChildReferences = [\<lparr>File = ''B.json'', Location = (0, 0, 0)\<rparr>],
           componentDirPath = []\<rparr>"

definition ex_B :: Component where
  "ex_B = \<lparr>Name = ''B'', Offset = (0, 0, 0), Meshes = [],
           ChildReferences = [\<lparr>File = ''A.json'', Location = (0, 0, 0)\<rparr>],
           componentDirPath = []\<rparr>"

definition ex_Table :: Component where
  "ex_Table =
     \<lparr>Name = ''Table'', Offset = (0, 0, 0),
      Meshes = [\<lparr>Mesh_Name = ''top'', BinFile = ''top.bin'', SrcMesh = None,
                 Mesh_Material = \<lparr>Textures = [''grain.png''], DiffuseTexture = ''wood.png'',
                                   NormalsTexture = [], SpecularTexture = []\<rparr>,
                 Parent = 0\<rparr>],
      ChildReferences = [\<lparr>File = ''parts/leg.json'', Location = (0x3F800000, 0, 0)\<rparr>,
                         \<lparr>File = ''parts/leg.json'', Location = (0, 0, 0)\<rparr>,
                         \<lparr>File = ''gone.json'', Location = (0, 0, 0)\<rparr>],
      componentDirPath = []\<rparr>"

definition ex_Leg :: Component where
  "ex_Leg = \<lparr>Name = ''Leg'', Offset = (0x40000000, 0x40000000, 0x40000000), Meshes = [],
             ChildReferences = [], componentDirPath = ''assets/parts/''\<rparr>"

definition ex_bad :: Mesh where
  "ex_bad = \<lparr>Mesh_Name = ''side'', BinFile = ''bad.bin'', SrcMesh = None,
             Mesh_Material = \<lparr>Textures = [], DiffuseTexture = [], NormalsTexture = [],
                               SpecularTexture = []\<rparr>,
             Parent = 0\<rparr>"

definition ex_plain :: Mesh where
  "ex_plain = ex_bad\<lparr>Mesh_Name := ''plain'', BinFile := []\<rparr>"

definition ex_X :: Component where
  "ex_X = \<lparr>Name = ''X'', Offset = (0, 0, 0), Meshes = [ex_bad], ChildReferences = [],
           componentDirPath = []\<rparr>"

definition ex_Y :: Component where
  "ex_Y = \<lparr>Name = ''Y'', Offset = (0, 0, 0), Meshes = [ex_plain, ex_bad], ChildReferences = [],
           componentDirPath = []\<rparr>"

definition ex_Self :: Component where
  "ex_Self = \<lparr>Name = ''Self'', Offset = (0, 0, 0), Meshes = [],
              ChildReferences = [\<lparr>File = ''gone.json'', Location = (0, 0, 0)\<rparr>,
                                 \<lparr>File = ''self.json'', Location = (0, 0, 0)\<rparr>],
              componentDirPath = []\<rparr>"

definition ex_env :: "unit env" where
  "ex_env =
     \<lparr>ReadFile = (\<lambda>path.
          if path = ''assets/A.json'' then Inr ''A''
          else if path = ''assets/B.json'' then Inr ''B''
          else if path = ''assets/self.json'' then Inr ''S''
          else if path = ''assets/top.bin'' then Inr ''topbin''
          else Inl (''open '' @ path @ '': no such file or directory'')),
      Unmarshal = (\<lambda>b.
          if b = ''A'' then Inr ex_A
          else if b = ''B'' then Inr ex_B
          else if b = ''T'' then Inr ex_Table
          else if b = ''X'' then Inr ex_X
          else if b = ''Y'' then Inr ex_Y
          else if b = ''S'' then Inr ex_Self
          else Inl ''invalid character''),
      DecodeMesh = (\<lambda>b. if b = ''topbin'' then Inr ''topmesh'' else Inl ''bad mesh''),
      LoadTexture = (\<lambda>tm key path. (Inl ''no such texture'', tm)),
      GetFullTexturePath = (\<lambda>h m i. componentDirPath (h (Parent m)) @ Textures (Mesh_Material m) ! i),
      GetRenderable = (\<lambda>c. Renderable (Offset c) [] 0)\<rparr>"

definition ex_s0 :: "unit state" where
  "ex_s0 = NewManager () ex_heap 0"

definition ex_one :: "unit state" where
  "ex_one = AddComponent ''A.json'' 0 (NewManager () (ex_heap(0 := ex_A)) 1)"

definition ex_scene :: "unit state" where
  "ex_scene = AddComponent ''leg.json'' 1 (AddComponent ''table.json'' 0
                (NewManager () (ex_heap(0 := ex_Table, 1 := ex_Leg)) 2))"

definition ex_cyc :: "unit state" where
  "ex_cyc =
     \<lparr>storage = [(''self.json'', 0)], textureManager = (),
      heap = ex_heap(0 := ex_Self\<lparr>componentDirPath := ''assets/''\<rparr>), next_addr = 1,
      log = [(''DEBUG'', ''Component '' @ [CHR 0x22] @ ''Self'' @ [CHR 0x22] @ '' has been loaded'')],
      trace = [EvStore ''self.json'' 0, EvLoadChild ''assets/gone.json'' ''self.json''],
      destroyed = []\<rparr>"

section \<open>Properties\<close>

subsection \<open>Fields the loops leave alone\<close>

lemmas ex_defs = ex_env_def ex_s0_def ex_one_def ex_scene_def ex_cyc_def ex_A_def ex_B_def
  ex_Table_def ex_Leg_def ex_bad_def ex_plain_def ex_X_def ex_Y_def ex_Self_def
  NewManager_def AddComponent_def filepath_Split_def Logsf_def

lemma Logsf_fields [simp]:
  "storage (Logsf l m s) = storage s" "heap (Logsf l m s) = heap s"
  "trace (Logsf l m s) = trace s" "next_addr (Logsf l m s) = next_addr s"
  "textureManager (Logsf l m s) = textureManager s" "destroyed (Logsf l m s) = destroyed s"
  "log (Logsf l m s) = log s @ [(l, m)]"
  by (simp_all add: Logsf_def)

lemma loadOneTexture_fields [simp]:
  "storage (loadOneTexture env i a b k p s) = storage s"
  "heap (loadOneTexture env i a b k p s) = heap s"
  "trace (loadOneTexture env i a b k p s) = trace s"
  "next_addr (loadOneTexture env i a b k p s) = next_addr s"
  "destroyed (loadOneTexture env i a b k p s) = destroyed s"
  by (simp_all add: loadOneTexture_def split: prod.splits sum.splits)

lemma loadTextureList_fields [simp]:
  "storage (loadTextureList env i m j ts s) = storage s"
  "heap (loadTextureList env i m j ts s) = heap s"
  "trace (loadTextureList env i m j ts s) = trace s"
  "next_addr (loadTextureList env i m j ts s) = next_addr s"
  "destroyed (loadTextureList env i m j ts s) = destroyed s"
  by (induction ts arbitrary: j s; simp)+

lemma loadMeshTextures_fields [simp]:
  "storage (loadMeshTextures env i m s) = storage s"
  "heap (loadMeshTextures env i m s) = heap s"
  "trace (loadMeshTextures env i m s) = trace s"
  "next_addr (loadMeshTextures env i m s) = next_addr s"
  "destroyed (loadMeshTextures env i m s) = destroyed s"
  by (simp_all add: loadMeshTextures_def Let_def)

lemma loadTextures_fields [simp]:
  "storage (loadTextures env i ms s) = storage s"
  "heap (loadTextures env i ms s) = heap s"
  "trace (loadTextures env i ms s) = trace s"
  "next_addr (loadTextures env i ms s) = next_addr s"
  "destroyed (loadTextures env i ms s) = destroyed s"
  by (induction ms arbitrary: i s; simp)+

subsection \<open>Loading: meshes, child references, termination\<close>

lemma mesh_fails_LoadTexture [simp]:
  "mesh_fails (env\<lparr>LoadTexture := lt\<rparr>) dirPath m = mesh_fails env dirPath m"
  by (simp add: mesh_fails_def cong: sum.case_cong)

lemma loadMeshForComponent_ok:
  "componentDirPath (h p) = dirPath \<Longrightarrow> \<not> mesh_fails env dirPath m \<Longrightarrow>
   \<exists>m'. loadMeshForComponent env h p m = Inr m'"
  by (auto simp: loadMeshForComponent_def mesh_fails_def GetFullBinFilePath_def Let_def
           split: sum.splits)

lemma loadMeshForComponent_fails:
  "componentDirPath (h p) = dirPath \<Longrightarrow> mesh_fails env dirPath m \<Longrightarrow>
   \<exists>msg. loadMeshForComponent env h p m = Inl msg \<and> names_file msg (BinFile m)"
  by (auto simp: loadMeshForComponent_def mesh_fails_def GetFullBinFilePath_def Let_def
                 names_file_def
           split: sum.splits)

lemma loadMeshes_ok:
  "componentDirPath (h p) = dirPath \<Longrightarrow> \<forall>m\<in>set ms. \<not> mesh_fails env dirPath m \<Longrightarrow>
   \<exists>ms'. loadMeshes env h p ms = Inr ms'"
proof (induction ms)
  case Nil
  then show ?case by simp
next
  case (Cons m ms)
  from Cons.prems obtain m' where "loadMeshForComponent env h p m = Inr m'"
    using loadMeshForComponent_ok [of h p dirPath env m] by auto
  moreover from Cons obtain ms' where "loadMeshes env h p ms = Inr ms'" by auto
  ultimately show ?case by simp
qed

lemma loadMeshes_fails:
  "componentDirPath (h p) = dirPath \<Longrightarrow> \<exists>m\<in>set ms. mesh_fails env dirPath m \<Longrightarrow>
   \<exists>msg pre m post. loadMeshes env h p ms = Inl msg \<and> ms = pre @ m # post
     \<and> list_all (\<lambda>x. \<not> mesh_fails env dirPath x) pre
     \<and> mesh_fails env dirPath m \<and> names_file msg (BinFile m)"
proof (induction ms)
  case Nil
  then show ?case by simp
next
  case (Cons m ms)
  show ?case
  proof (cases "mesh_fails env dirPath m")
    case True
    with Cons.prems(1) obtain msg where
      "loadMeshForComponent env h p m = Inl msg" "names_file msg (BinFile m)"
      using loadMeshForComponent_fails [of h p dirPath env m] by auto
    with True have "loadMeshes env h p (m # ms) = Inl msg \<and> m # ms = [] @ m # ms
        \<and> list_all (\<lambda>x. \<not> mesh_fails env dirPath x) []
        \<and> mesh_fails env dirPath m \<and> names_file msg (BinFile m)"
      by simp
    then show ?thesis by blast
  next
    case False
    with Cons.prems(1) obtain m' where m': "loadMeshForComponent env h p m = Inr m'"
      using loadMeshForComponent_ok [of h p dirPath env m] by auto
    from False Cons.prems(2) have "\<exists>m\<in>set ms. mesh_fails env dirPath m" by auto
    from Cons.IH [OF Cons.prems(1) this] obtain msg pre m2 post where
      "loadMeshes env h p ms = Inl msg" "ms = pre @ m2 # post"
      "list_all (\<lambda>x. \<not> mesh_fails env dirPath x) pre" "mesh_fails env dirPath m2"
      "names_file msg (BinFile m2)" by blast
    with m' False have "loadMeshes env h p (m # ms) = Inl msg \<and> m # ms = (m # pre) @ m2 # post
        \<and> list_all (\<lambda>x. \<not> mesh_fails env dirPath x) (m # pre)
        \<and> mesh_fails env dirPath m2 \<and> names_file msg (BinFile m2)"
      by simp
    then show ?thesis by blast
  qed
qed

text \<open>
  Once \<open>storageName\<close> is in the store, \<open>LoadComponentFromFile\<close> returns the stored
  pointer at once, so the loop over the child references starts one recursive load for
  each child whose file name is not a key, and each of them returns at once: the store
  does not change during the loop.
\<close>

lemma LoadComponentFromFile_cached:
  "map_of (storage s) storageName = Some p \<Longrightarrow>
   LoadComponentFromFile (Suc fuel) env s filename storageName = Some (Inr p, s)"
  by simp

lemma loadChildren_cached:
  "map_of (storage s) storageName = Some p \<Longrightarrow>
   loadChildren (Suc fuel) env dirPath storageName c crefs s =
     Some (s\<lparr>trace := trace s @ childLoads dirPath storageName (storage s) crefs\<rparr>)"
proof (induction crefs arbitrary: s)
  case Nil
  then show ?case by (simp add: childLoads_def)
next
  case (Cons cr crefs)
  show ?case
  proof (cases "map_of (storage s) (snd (filepath_Split (File cr)))")
    case None
    let ?s = "s\<lparr>trace := trace s @ [EvLoadChild (dirPath @ File cr) storageName]\<rparr>"
    have "map_of (storage ?s) storageName = Some p" using Cons.prems by simp
    from Cons.IH [OF this] None Cons.prems show ?thesis
      by (simp add: childLoads_def)
  next
    case (Some q)
    with Cons show ?thesis by (simp add: childLoads_def)
  qed
qed

lemma stored_before_loads_children:
  "storageName \<in> set known \<Longrightarrow>
   stored_before_loads known (childLoads dirPath storageName st crefs)"
  by (induction crefs) (simp_all add: childLoads_def)

lemma LoadComponentFromBytes_success:
  assumes U: "Unmarshal env jsonBytes = Inr decoded"
    and M: "loadMeshes env ((heap s)(next_addr s := decoded\<lparr>componentDirPath := dirPath\<rparr>))
              (next_addr s) (Meshes decoded) = Inr ms"
  shows "\<exists>s'. LoadComponentFromBytes (Suc (Suc fuel)) env s jsonBytes storageName dirPath
             = Some (Inr (next_addr s), s')
           \<and> storage s' = AList.update storageName (next_addr s) (storage s)
           \<and> trace s' = trace s @ EvStore storageName (next_addr s)
                 # childLoads dirPath storageName
                     (AList.update storageName (next_addr s) (storage s)) (ChildReferences decoded)
           \<and> heap s' = (heap s)(next_addr s := decoded\<lparr>componentDirPath := dirPath, Meshes := ms\<rparr>)
           \<and> next_addr s' = Suc (next_addr s)"
proof -
  let ?p = "next_addr s"
  let ?s1 = "s\<lparr>heap := (heap s)(?p := decoded\<lparr>componentDirPath := dirPath\<rparr>), next_addr := Suc ?p\<rparr>"
  let ?s2 = "?s1\<lparr>heap := (heap ?s1)(?p := (heap ?s1 ?p)\<lparr>Meshes := ms\<rparr>)\<rparr>"
  let ?s3 = "loadTextures env 0 (Meshes (heap ?s2 ?p)) ?s2"
  let ?s4 = "?s3\<lparr>storage := AList.update storageName ?p (storage ?s3),
                  trace := trace ?s3 @ [EvStore storageName ?p]\<rparr>"
  have st: "map_of (storage ?s4) storageName = Some ?p"
    by (simp add: update_conv')
  have ch: "loadChildren (Suc fuel) env dirPath storageName ?p (ChildReferences (heap ?s4 ?p)) ?s4
          = Some (?s4\<lparr>trace := trace ?s4 @ childLoads dirPath storageName (storage ?s4)
                                              (ChildReferences (heap ?s4 ?p))\<rparr>)"
    by (rule loadChildren_cached [OF st])
  have M': "loadMeshes env (heap ?s1) ?p (Meshes (heap ?s1 ?p)) = Inr ms"
    using M by simp
  have "LoadComponentFromBytes (Suc (Suc fuel)) env s jsonBytes storageName dirPath
      = (case loadChildren (Suc fuel) env dirPath storageName ?p (ChildReferences (heap ?s4 ?p)) ?s4 of
           None \<Rightarrow> None
         | Some s5 \<Rightarrow> Some (Inr ?p, Logsf ''DEBUG''
                                  (''Component '' @ [CHR 0x22] @ Name (heap s5 ?p)
                                   @ [CHR 0x22] @ '' has been loaded'') s5))"
    unfolding LoadComponentFromBytes.simps U sum.case Let_def M' ..
  then show ?thesis
    unfolding ch by simp
qed

lemma LoadComponentFromBytes_loaded:
  assumes U: "Unmarshal env jsonBytes = Inr decoded"
    and M: "\<forall>m\<in>set (Meshes decoded). \<not> mesh_fails env dirPath m"
    and F: "2 \<le> fuel"
  shows "\<exists>s'. LoadComponentFromBytes fuel env s jsonBytes storageName dirPath
             = Some (Inr (next_addr s), s')
           \<and> storage s' = AList.update storageName (next_addr s) (storage s)
           \<and> trace s' = trace s @ EvStore storageName (next_addr s)
                 # childLoads dirPath storageName
                     (AList.update storageName (next_addr s) (storage s)) (ChildReferences decoded)"
proof -
  from F obtain k where k: "fuel = Suc (Suc k)"
    by (metis Suc_le_D numeral_2_eq_2 Suc_le_mono)
  let ?h = "(heap s)(next_addr s := decoded\<lparr>componentDirPath := dirPath\<rparr>)"
  have "componentDirPath (?h (next_addr s)) = dirPath" by simp
  with M obtain ms where "loadMeshes env ?h (next_addr s) (Meshes decoded) = Inr ms"
    using loadMeshes_ok [where h = ?h and p = "next_addr s" and dirPath = dirPath
                           and ms = "Meshes decoded" and env = env]
    by blast
  from LoadComponentFromBytes_success [OF U this, of k storageName] show ?thesis
    unfolding k by blast
qed

text \<open>
  Both entry points return for every input once the bound allows the nesting that the
  code can reach: a load never nests deeper than a load from bytes inside a load from a
  file inside the loop of a load from bytes.
\<close>

lemma LoadComponentFromBytes_returns:
  "\<exists>r. LoadComponentFromBytes (Suc (Suc fuel)) env s jsonBytes storageName dirPath = Some r"
proof (cases "Unmarshal env jsonBytes")
  case (Inl err)
  then show ?thesis by simp
next
  case (Inr decoded)
  show ?thesis
  proof (cases "loadMeshes env ((heap s)(next_addr s := decoded\<lparr>componentDirPath := dirPath\<rparr>))
                  (next_addr s) (Meshes decoded)")
    case (Inl err)
    then show ?thesis using Inr by (simp add: Let_def)
  next
    case (Inr ms)
    from LoadComponentFromBytes_success [OF \<open>Unmarshal env jsonBytes = Inr decoded\<close> Inr]
    show ?thesis by blast
  qed
qed

lemma LoadComponentFromFile_returns:
  "\<exists>r. LoadComponentFromFile (Suc (Suc (Suc fuel))) env s filename storageName = Some r"
proof (cases "map_of (storage s) storageName")
  case (Some p)
  then show ?thesis by simp
next
  case None
  show ?thesis
  proof (cases "ReadFile env filename")
    case (Inl err)
    with None show ?thesis by simp
  next
    case (Inr jsonBytes)
    with None LoadComponentFromBytes_returns [of fuel env s jsonBytes storageName]
    show ?thesis by (simp add: Let_def)
  qed
qed

text \<open>
  Beyond that nesting the bound plays no part in the result.
\<close>

lemma LoadComponentFromBytes_fuel:
  "LoadComponentFromBytes (Suc (Suc fuel)) env s jsonBytes storageName dirPath
     = LoadComponentFromBytes (Suc (Suc 0)) env s jsonBytes storageName dirPath"
proof (cases "Unmarshal env jsonBytes")
  case (Inl err)
  then show ?thesis by simp
next
  case U: (Inr decoded)
  let ?p = "next_addr s"
  let ?s1 = "s\<lparr>heap := (heap s)(?p := decoded\<lparr>componentDirPath := dirPath\<rparr>), next_addr := Suc ?p\<rparr>"
  show ?thesis
  proof (cases "loadMeshes env (heap ?s1) ?p (Meshes (heap ?s1 ?p))")
    case (Inl err)
    then show ?thesis using U by (simp add: Let_def)
  next
    case M: (Inr ms)
    let ?s2 = "?s1\<lparr>heap := (heap ?s1)(?p := (heap ?s1 ?p)\<lparr>Meshes := ms\<rparr>)\<rparr>"
    let ?s3 = "loadTextures env 0 (Meshes (heap ?s2 ?p)) ?s2"
    let ?s4 = "?s3\<lparr>storage := AList.update storageName ?p (storage ?s3),
                    trace := trace ?s3 @ [EvStore storageName ?p]\<rparr>"
    have st: "map_of (storage ?s4) storageName = Some ?p"
      by (simp add: update_conv')
    have ch: "loadChildren (Suc k) env dirPath storageName ?p (ChildReferences (heap ?s4 ?p)) ?s4
          = Some (?s4\<lparr>trace := trace ?s4 @ childLoads dirPath storageName (storage ?s4)
                                              (ChildReferences (heap ?s4 ?p))\<rparr>)" for k
      by (rule loadChildren_cached [OF st])
    have "LoadComponentFromBytes (Suc (Suc k)) env s jsonBytes storageName dirPath
      = (case loadChildren (Suc k) env dirPath storageName ?p (ChildReferences (heap ?s4 ?p)) ?s4 of
           None \<Rightarrow> None
         | Some s5 \<Rightarrow> Some (Inr ?p, Logsf ''DEBUG''
                                  (''Component '' @ [CHR 0x22] @ Name (heap s5 ?p)
                                   @ [CHR 0x22] @ '' has been loaded'') s5))" for k
      unfolding LoadComponentFromBytes.simps U sum.case Let_def M ..
    then show ?thesis
      by (simp only: ch)
  qed
qed

lemma LoadComponentFromFile_fuel:
  "LoadComponentFromFile (Suc (Suc (Suc fuel))) env s filename storageName
     = LoadComponentFromFile (Suc (Suc (Suc 0))) env s filename storageName"
  using LoadComponentFromBytes_fuel [of fuel env s _ storageName "fst (filepath_Split filename)"]
  by (simp add: Let_def split: option.splits sum.splits)

subsection \<open>Instancing\<close>

lemma vec_set_all:
  "vec_set (vec_set (vec_set l 0 (vec_get v 0)) (Suc 0) (vec_get v (Suc 0))) 2 (vec_get v 2) = v"
  by (cases l rule: prod_cases3; cases v rule: prod_cases3) simp

lemma rLocation_overwritten:
  "rLocation (set_rLocation (set_rLocation (set_rLocation rc 0 (vec_get v 0))
                               (Suc 0) (vec_get v (Suc 0))) 2 (vec_get v 2)) = v"
  by (cases rc) (simp only: set_rLocation.simps Renderable.sel vec_set_all)

lemma Children_AddChild: "Children (AddChild r c) = Children r @ [c]"
  by (cases r) simp

lemma length_Children_Clone: "length (Children (Clone r)) = length (Children r)"
  by (cases r) simp

lemma cloneChildren_missing:
  "map_of (storage s) (snd (filepath_Split (File cref))) = None \<Longrightarrow>
   cloneChildren fuel env p (cref # rest) r s =
     cloneChildren fuel env p rest r
       (Logsf ''ERROR'' (msgNotLoaded (Name (heap s p)) (File cref)) s)"
  by (simp add: GetComponent_def msgNotLoaded_def)

lemma cloneChildren_found:
  "map_of (storage s) (snd (filepath_Split (File cref))) = Some q \<Longrightarrow>
   cloneChildren fuel env p (cref # rest) r s =
     (case GetRenderableInstance fuel env s q of
        None \<Rightarrow> None
      | Some (rc, s') \<Rightarrow>
          cloneChildren fuel env p rest
            (AddChild r (set_rLocation (set_rLocation (set_rLocation rc 0 (vec_get (Location cref) 0))
                                          1 (vec_get (Location cref) 1)) 2 (vec_get (Location cref) 2)))
            s')"
  by (simp add: GetComponent_def Let_def split: option.splits)

lemma unchanged_refl: "unchanged s s"
  by (simp add: unchanged_def)

lemma unchanged_trans: "unchanged s s1 \<Longrightarrow> unchanged s1 s2 \<Longrightarrow> unchanged s s2"
  by (auto simp: unchanged_def)

lemma unchanged_Logsf: "unchanged s (Logsf l m s)"
  by (simp add: unchanged_def)

lemma cloneChildren_unchanged:
  assumes IH: "\<And>s q rc s1. GetRenderableInstance fuel env s q = Some (rc, s1) \<Longrightarrow> unchanged s s1"
  shows "cloneChildren fuel env p crefs r0 s = Some (r, s') \<Longrightarrow> unchanged s s'"
proof (induction crefs arbitrary: r0 s)
  case Nil
  then show ?case by (simp add: unchanged_refl)
next
  case (Cons cref rest)
  show ?case
  proof (cases "map_of (storage s) (snd (filepath_Split (File cref)))")
    case None
    from Cons.prems have
      "cloneChildren fuel env p rest r0 (Logsf ''ERROR'' (msgNotLoaded (Name (heap s p)) (File cref)) s)
         = Some (r, s')"
      by (simp only: cloneChildren_missing [OF None])
    from Cons.IH [OF this] show ?thesis
      by (rule unchanged_trans [OF unchanged_Logsf])
  next
    case (Some q)
    from Cons.prems [unfolded cloneChildren_found [OF Some]]
    obtain rc s1 where g: "GetRenderableInstance fuel env s q = Some (rc, s1)"
      and c: "cloneChildren fuel env p rest
            (AddChild r0 (set_rLocation (set_rLocation (set_rLocation rc 0 (vec_get (Location cref) 0))
                                          1 (vec_get (Location cref) 1)) 2 (vec_get (Location cref) 2)))
            s1 = Some (r, s')"
      by (auto split: option.splits)
    from IH [OF g] Cons.IH [OF c] show ?thesis by (rule unchanged_trans)
  qed
qed

lemma GetRenderableInstance_unchanged:
  "GetRenderableInstance fuel env s p = Some (r, s') \<Longrightarrow> unchanged s s'"
proof (induction fuel arbitrary: s p r s')
  case 0
  then show ?case by simp
next
  case (Suc fuel)
  from Suc.prems have
    "cloneChildren fuel env p (ChildReferences (heap s p)) (Clone (GetRenderable env (heap s p))) s
       = Some (r, s')"
    by (simp add: Let_def)
  then show ?case
    by (rule cloneChildren_unchanged [rotated]) (rule Suc.IH)
qed

lemma cloneChildren_unchanged':
  assumes c: "cloneChildren fuel env p crefs r0 s = Some (r, s')"
  shows "unchanged s s'"
proof (rule cloneChildren_unchanged [OF _ c])
  fix s q rc s1
  assume "GetRenderableInstance fuel env s q = Some (rc, s1)"
  then show "unchanged s s1" by (rule GetRenderableInstance_unchanged)
qed

lemma cloneChildren_kids:
  "cloneChildren fuel env p crefs r0 s = Some (r, s') \<Longrightarrow>
   \<exists>kids. Children r = Children r0 @ kids
        \<and> map rLocation kids = map Location (resolvable (storage s) crefs)"
proof (induction crefs arbitrary: r0 s)
  case Nil
  then show ?case by (simp add: resolvable_def)
next
  case (Cons cref rest)
  show ?case
  proof (cases "map_of (storage s) (snd (filepath_Split (File cref)))")
    case None
    from Cons.prems have
      "cloneChildren fuel env p rest r0 (Logsf ''ERROR'' (msgNotLoaded (Name (heap s p)) (File cref)) s)
         = Some (r, s')"
      by (simp only: cloneChildren_missing [OF None])
    from Cons.IH [OF this] None show ?thesis
      by (simp add: resolvable_def)
  next
    case (Some q)
    let ?rc = "\<lambda>rc. set_rLocation (set_rLocation (set_rLocation rc 0 (vec_get (Location cref) 0))
                                          1 (vec_get (Location cref) 1)) 2 (vec_get (Location cref) 2)"
    from Cons.prems [unfolded cloneChildren_found [OF Some]]
    obtain rc s1 where g: "GetRenderableInstance fuel env s q = Some (rc, s1)"
      and c: "cloneChildren fuel env p rest (AddChild r0 (?rc rc)) s1 = Some (r, s')"
      by (auto split: option.splits)
    from GetRenderableInstance_unchanged [OF g] have st: "storage s1 = storage s"
      by (simp add: unchanged_def)
    from Cons.IH [OF c] obtain kids where
      k: "Children r = Children (AddChild r0 (?rc rc)) @ kids"
         "map rLocation kids = map Location (resolvable (storage s1) rest)"
      by blast
    have "Children r = Children r0 @ (?rc rc # kids)"
      using k(1) by (simp add: Children_AddChild)
    moreover have "map rLocation (?rc rc # kids) = map Location (resolvable (storage s) (cref # rest))"
      using k(2) Some st by (simp add: resolvable_def rLocation_overwritten)
    ultimately show ?thesis by blast
  qed
qed

lemma GetRenderableInstance_kids:
  assumes "GetRenderableInstance fuel env s p = Some (r, s')"
  shows "\<exists>kids. Children r = Children (Clone (GetRenderable env (heap s p))) @ kids
           \<and> map rLocation kids = map Location (resolvable (storage s) (ChildReferences (heap s p)))"
proof (cases fuel)
  case 0
  with assms show ?thesis by simp
next
  case (Suc k)
  with assms have
    "cloneChildren k env p (ChildReferences (heap s p)) (Clone (GetRenderable env (heap s p))) s
       = Some (r, s')"
    by (simp add: Let_def)
  then show ?thesis by (rule cloneChildren_kids)
qed

lemma cloneChildren_logged:
  "cloneChildren fuel env p crefs r0 s = Some (r, s') \<Longrightarrow>
   cr \<in> set crefs \<Longrightarrow> map_of (storage s) (snd (filepath_Split (File cr))) = None \<Longrightarrow>
   (''ERROR'', msgNotLoaded (Name (heap s p)) (File cr)) \<in> set (log s')"
proof (induction crefs arbitrary: r0 s)
  case Nil
  then show ?case by simp
next
  case (Cons cref rest)
  show ?case
  proof (cases "map_of (storage s) (snd (filepath_Split (File cref)))")
    case None
    let ?s = "Logsf ''ERROR'' (msgNotLoaded (Name (heap s p)) (File cref)) s"
    from Cons.prems(1) have c: "cloneChildren fuel env p rest r0 ?s = Some (r, s')"
      by (simp only: cloneChildren_missing [OF None])
    show ?thesis
    proof (cases "cr = cref")
      case True
      from cloneChildren_unchanged' [OF c]
      obtain more where "log s' = log ?s @ more" by (auto simp: unchanged_def)
      with True show ?thesis by simp
    next
      case False
      with Cons.prems(2) have "cr \<in> set rest" by simp
      from Cons.IH [OF c this] Cons.prems(3) show ?thesis by simp
    qed
  next
    case (Some q)
    from Cons.prems(1) [unfolded cloneChildren_found [OF Some]]
    obtain rc s1 where g: "GetRenderableInstance fuel env s q = Some (rc, s1)"
      and c: "cloneChildren fuel env p rest
            (AddChild r0 (set_rLocation (set_rLocation (set_rLocation rc 0 (vec_get (Location cref) 0))
                                          1 (vec_get (Location cref) 1)) 2 (vec_get (Location cref) 2)))
            s1 = Some (r, s')"
      by (auto split: option.splits)
    from GetRenderableInstance_unchanged [OF g] have st: "storage s1 = storage s" "heap s1 = heap s"
      by (simp_all add: unchanged_def)
    from Some Cons.prems(3) have "cr \<noteq> cref" by auto
    with Cons.prems(2) have "cr \<in> set rest" by simp
    from Cons.IH [OF c this] Cons.prems(3) st show ?thesis by simp
  qed
qed

lemma cloneChildren_total:
  assumes IH: "\<And>s q. resolves_within fuel (storage s) (heap s) q \<Longrightarrow>
                 \<exists>rc s1. GetRenderableInstance fuel env s q = Some (rc, s1)"
  shows "list_all (\<lambda>cr. case map_of (storage s) (snd (filepath_Split (File cr))) of
                      None \<Rightarrow> True
                    | Some q \<Rightarrow> resolves_within fuel (storage s) (heap s) q) crefs \<Longrightarrow>
         \<exists>r s'. cloneChildren fuel env p crefs r0 s = Some (r, s')"
proof (induction crefs arbitrary: r0 s)
  case Nil
  then show ?case by simp
next
  case (Cons cref rest)
  show ?case
  proof (cases "map_of (storage s) (snd (filepath_Split (File cref)))")
    case None
    let ?s = "Logsf ''ERROR'' (msgNotLoaded (Name (heap s p)) (File cref)) s"
    from Cons.prems have "list_all (\<lambda>cr. case map_of (storage ?s) (snd (filepath_Split (File cr))) of
                      None \<Rightarrow> True
                    | Some q \<Rightarrow> resolves_within fuel (storage ?s) (heap ?s) q) rest"
      by (simp cong: option.case_cong)
    from Cons.IH [OF this] show ?thesis
      by (simp only: cloneChildren_missing [OF None])
  next
    case (Some q)
    with Cons.prems have "resolves_within fuel (storage s) (heap s) q" by simp
    from IH [OF this] obtain rc s1 where g: "GetRenderableInstance fuel env s q = Some (rc, s1)"
      by blast
    from GetRenderableInstance_unchanged [OF g] have st: "storage s1 = storage s" "heap s1 = heap s"
      by (simp_all add: unchanged_def)
    from Cons.prems have "list_all (\<lambda>cr. case map_of (storage s1) (snd (filepath_Split (File cr))) of
                      None \<Rightarrow> True
                    | Some q \<Rightarrow> resolves_within fuel (storage s1) (heap s1) q) rest"
      by (simp add: st cong: option.case_cong)
    from Cons.IH [OF this] show ?thesis
      by (simp only: cloneChildren_found [OF Some] g option.case prod.case)
  qed
qed

lemma GetRenderableInstance_total:
  "resolves_within fuel (storage s) (heap s) p \<Longrightarrow>
   \<exists>r s'. GetRenderableInstance fuel env s p = Some (r, s')"
proof (induction fuel arbitrary: s p)
  case 0
  then show ?case by simp
next
  case (Suc fuel)
  from Suc.prems have "list_all (\<lambda>cr. case map_of (storage s) (snd (filepath_Split (File cr))) of
                      None \<Rightarrow> True
                    | Some q \<Rightarrow> resolves_within fuel (storage s) (heap s) q) (ChildReferences (heap s p))"
    by simp
  from cloneChildren_total [where env = env, OF Suc.IH this] show ?case
    by (simp add: Let_def)
qed

lemma cloneChildren_more_fuel:
  assumes IH: "\<And>s q rc s1. GetRenderableInstance fuel env s q = Some (rc, s1) \<Longrightarrow>
                 GetRenderableInstance (Suc fuel) env s q = Some (rc, s1)"
  shows "cloneChildren fuel env p crefs r0 s = Some (r, s') \<Longrightarrow>
         cloneChildren (Suc fuel) env p crefs r0 s = Some (r, s')"
proof (induction crefs arbitrary: r0 s)
  case Nil
  then show ?case by simp
next
  case (Cons cref rest)
  show ?case
  proof (cases "map_of (storage s) (snd (filepath_Split (File cref)))")
    case None
    from Cons.prems have
      "cloneChildren fuel env p rest r0 (Logsf ''ERROR'' (msgNotLoaded (Name (heap s p)) (File cref)) s)
         = Some (r, s')"
      by (simp only: cloneChildren_missing [OF None])
    from Cons.IH [OF this] show ?thesis
      by (simp only: cloneChildren_missing [OF None])
  next
    case (Some q)
    let ?rc = "\<lambda>rc. set_rLocation (set_rLocation (set_rLocation rc 0 (vec_get (Location cref) 0))
                                          1 (vec_get (Location cref) 1)) 2 (vec_get (Location cref) 2)"
    from Cons.prems [unfolded cloneChildren_found [OF Some]]
    obtain rc s1 where g: "GetRenderableInstance fuel env s q = Some (rc, s1)"
      and c: "cloneChildren fuel env p rest (AddChild r0 (?rc rc)) s1 = Some (r, s')"
      by (auto split: option.splits)
    from IH [OF g] Cons.IH [OF c] show ?thesis
      by (simp only: cloneChildren_found [OF Some] option.case prod.case)
  qed
qed

lemma GetRenderableInstance_more_fuel:
  "GetRenderableInstance fuel env s p = Some (r, s') \<Longrightarrow>
   GetRenderableInstance (Suc fuel) env s p = Some (r, s')"
proof (induction fuel arbitrary: s p r s')
  case 0
  then show ?case by simp
next
  case (Suc fuel)
  from Suc.prems have
    "cloneChildren fuel env p (ChildReferences (heap s p)) (Clone (GetRenderable env (heap s p))) s
       = Some (r, s')"
    by (simp add: Let_def)
  then have
    "cloneChildren (Suc fuel) env p (ChildReferences (heap s p)) (Clone (GetRenderable env (heap s p))) s
       = Some (r, s')"
    by (rule cloneChildren_more_fuel [rotated]) (rule Suc.IH)
  then show ?case by (simp add: Let_def)
qed

lemma ex_scene_instance:
  "GetRenderableInstance 2 ex_env ex_scene 0
     = Some (Renderable (0, 0, 0) [Renderable (0x3F800000, 0, 0) [] 0, Renderable (0, 0, 0) [] 0] 0,
             Logsf ''ERROR'' (msgNotLoaded ''Table'' ''gone.json'') ex_scene)"
  by (simp add: eval_nat_numeral ex_defs GetComponent_def msgNotLoaded_def Let_def)

lemma cyclic_instancing_diverges:
  "storage s = [(''self.json'', 0)] \<Longrightarrow> ChildReferences (heap s 0) = ChildReferences ex_Self \<Longrightarrow>
   GetRenderableInstance fuel env s 0 = None"
proof (induction fuel arbitrary: s)
  case 0
  show ?case by simp
next
  case (Suc fuel)
  let ?s = "Logsf ''ERROR'' (msgNotLoaded (Name (heap s 0)) ''gone.json'') s"
  have "storage ?s = [(''self.json'', 0)]" "ChildReferences (heap ?s 0) = ChildReferences ex_Self"
    using Suc.prems by simp_all
  then have "GetRenderableInstance fuel env ?s 0 = None" by (rule Suc.IH)
  then show ?case
    using Suc.prems
    by (simp add: ex_Self_def Let_def GetComponent_def filepath_Split_def msgNotLoaded_def)
qed

lemma fold_Component_Destroy:
  "fold (\<lambda>(_, c). Component_Destroy c) st s = s\<lparr>destroyed := destroyed s @ map snd st\<rparr>"
  by (induction st arbitrary: s) (auto simp: Component_Destroy_def)

section \<open>The claims\<close>

text \<open>
  C1. Two component files reference each other and the first is loaded from its file
  under its own file name. The load returns, and the store then holds the first
  component only: the recursive load for the child is started under the parent's storage
  name, which is in the store by then, so it returns the parent and the child's file is
  never read (\<open>LoadComponentFromFile_returns\<close> is the termination for every input).
\<close>

theorem cyclic_load_registers_parent_only:
  "map_option fst
     (LoadComponentFromFile 3 ex_env ex_s0 ''assets/A.json'' ''A.json'') = Some (Inr 0)
   \<and> map_option (storage \<circ> snd)
     (LoadComponentFromFile 3 ex_env ex_s0 ''assets/A.json'' ''A.json'') = Some [(''A.json'', 0)]
   \<and> map_option (trace \<circ> snd)
     (LoadComponentFromFile 3 ex_env ex_s0 ''assets/A.json'' ''A.json'')
       = Some [EvStore ''A.json'' 0, EvLoadChild ''assets/B.json'' ''A.json'']
   \<and> fst (GetComponent (snd (the
        (LoadComponentFromFile 3 ex_env ex_s0 ''assets/A.json'' ''A.json''))) ''B.json'') = None"
  by (simp add: eval_nat_numeral ex_defs GetComponent_def Let_def)

text \<open>
  C2, for \<open>LoadComponentFromFile\<close>: when \<open>storageName\<close> is a key of the store the call
  returns the stored pointer and the state is the one it was called in, whatever the
  heap holds by then (a component changed after its first load is returned as changed),
  for every file name and every file system: nothing is read or decoded.
\<close>

theorem LoadComponentFromFile_idempotent:
  "map_of (storage s) storageName = Some p \<Longrightarrow> 0 < fuel \<Longrightarrow>
   LoadComponentFromFile fuel env (s\<lparr>heap := h\<rparr>) filename storageName
     = Some (Inr p, s\<lparr>heap := h\<rparr>)"
  by (cases fuel) simp_all

text \<open>
  The instance: the component stored under \<open>A.json\<close> was renamed after its load.
\<close>

theorem LoadComponentFromFile_idempotent_witness:
  "map_of (storage ex_one) ''A.json'' = Some 0 \<and> (0::nat) < 1 \<and>
   LoadComponentFromFile 1 ex_env
     (ex_one\<lparr>heap := (heap ex_one)(0 := ex_A\<lparr>Name := ''sentinel''\<rparr>)\<rparr>) ''assets/A.json'' ''A.json''
   = Some (Inr 0, ex_one\<lparr>heap := (heap ex_one)(0 := ex_A\<lparr>Name := ''sentinel''\<rparr>)\<rparr>)"
proof -
  have h: "map_of (storage ex_one) ''A.json'' = Some 0"
    by (simp add: ex_one_def AddComponent_def NewManager_def)
  have f: "(0::nat) < 1" by simp
  from LoadComponentFromFile_idempotent [OF h f] h show ?thesis by simp
qed

text \<open>
  \<open>LoadComponentFromBytes\<close> has no such check: called with a storage name that is a key
  of the store, it decodes its input, allocates a new component and replaces the entry.
\<close>

theorem LoadComponentFromBytes_reloads:
  "map_of (storage ex_one) ''A.json'' = Some 0
   \<and> map_option fst (LoadComponentFromBytes 2 ex_env ex_one ''A'' ''A.json'' ''assets/'')
       = Some (Inr 1)
   \<and> map_option (storage \<circ> snd)
       (LoadComponentFromBytes 2 ex_env ex_one ''A'' ''A.json'' ''assets/'')
       = Some [(''A.json'', 1)]"
  by (simp add: eval_nat_numeral ex_defs Let_def)

text \<open>
  C3. When the JSON decodes and a mesh entry fails to load, \<open>LoadComponentFromBytes\<close>
  returns an error, the store is the one before the call, and the message is the
  message of \<open>loadMeshForComponent\<close> for the binary file of the first mesh entry that
  fails.
\<close>

theorem mesh_failure_aborts_load:
  assumes U: "Unmarshal env jsonBytes = Inr decoded"
    and E: "\<exists>m\<in>set (Meshes decoded). mesh_fails env dirPath m"
    and F: "0 < fuel"
  shows "\<exists>msg s' pre m post.
           LoadComponentFromBytes fuel env s jsonBytes storageName dirPath = Some (Inl msg, s')
           \<and> storage s' = storage s
           \<and> Meshes decoded = pre @ m # post
           \<and> list_all (\<lambda>x. \<not> mesh_fails env dirPath x) pre
           \<and> mesh_fails env dirPath m
           \<and> names_file msg (BinFile m)"
proof -
  from F obtain k where k: "fuel = Suc k" by (cases fuel) auto
  let ?h = "(heap s)(next_addr s := decoded\<lparr>componentDirPath := dirPath\<rparr>)"
  have "componentDirPath (?h (next_addr s)) = dirPath" by simp
  with E obtain msg pre m post where
    l: "loadMeshes env ?h (next_addr s) (Meshes decoded) = Inl msg"
    and m: "Meshes decoded = pre @ m # post" "list_all (\<lambda>x. \<not> mesh_fails env dirPath x) pre"
      "mesh_fails env dirPath m" "names_file msg (BinFile m)"
    using loadMeshes_fails [where h = ?h and p = "next_addr s" and dirPath = dirPath
                              and ms = "Meshes decoded" and env = env]
    by blast
  have "LoadComponentFromBytes fuel env s jsonBytes storageName dirPath
          = Some (Inl msg, s\<lparr>heap := ?h, next_addr := Suc (next_addr s)\<rparr>)"
    unfolding k using U l by (simp add: Let_def)
  moreover have "storage (s\<lparr>heap := ?h, next_addr := Suc (next_addr s)\<rparr>) = storage s"
    by simp
  ultimately show ?thesis using m by blast
qed

theorem mesh_failure_aborts_load_witness:
  "Unmarshal ex_env ''Y'' = Inr ex_Y \<and> mesh_fails ex_env ''assets/'' ex_bad \<and>
   (\<exists>msg s' pre m post.
       LoadComponentFromBytes 1 ex_env ex_s0 ''Y'' ''y.json'' ''assets/'' = Some (Inl msg, s')
       \<and> storage s' = storage ex_s0
       \<and> Meshes ex_Y = pre @ m # post
       \<and> list_all (\<lambda>x. \<not> mesh_fails ex_env ''assets/'' x) pre
       \<and> mesh_fails ex_env ''assets/'' m
       \<and> names_file msg (BinFile m))"
proof -
  have U: "Unmarshal ex_env ''Y'' = Inr ex_Y" by (simp add: ex_env_def)
  have b: "mesh_fails ex_env ''assets/'' ex_bad"
    by (simp add: mesh_fails_def ex_env_def ex_bad_def)
  then have E: "\<exists>m\<in>set (Meshes ex_Y). mesh_fails ex_env ''assets/'' m"
    by (simp add: ex_Y_def)
  have F: "(0::nat) < 1" by simp
  from mesh_failure_aborts_load [OF U E F, of ex_s0 "''y.json''"] U b show ?thesis by blast
qed

text \<open>
  The message names the file and not the index of the mesh: the same file failing at
  index 0 of one component and at index 1 of another gives the same message.
\<close>

theorem mesh_error_omits_index:
  "mesh_fails ex_env ''assets/'' (Meshes ex_X ! 0)
   \<and> \<not> mesh_fails ex_env ''assets/'' (Meshes ex_Y ! 0)
   \<and> mesh_fails ex_env ''assets/'' (Meshes ex_Y ! 1)
   \<and> map_option fst (LoadComponentFromBytes 2 ex_env ex_s0 ''X'' ''x.json'' ''assets/'')
       = Some (Inl (''Failed to load the binary file (bad.bin) for the ComponentMesh.''
                    @ [CHR 0x0A] @ ''open assets/bad.bin: no such file or directory'' @ [CHR 0x0A]))
   \<and> map_option fst (LoadComponentFromBytes 2 ex_env ex_s0 ''Y'' ''y.json'' ''assets/'')
       = Some (Inl (''Failed to load the binary file (bad.bin) for the ComponentMesh.''
                    @ [CHR 0x0A] @ ''open assets/bad.bin: no such file or directory'' @ [CHR 0x0A]))"
  by (simp add: eval_nat_numeral ex_defs mesh_fails_def loadMeshForComponent_def
        GetFullBinFilePath_def Let_def)

text \<open>
  C4. A load from bytes that reaches the child references writes the component to the
  store and then starts a recursive load for exactly the child references whose base
  file name is not a key of the store, in their order, each with the path
  \<open>dirPath @ File\<close> and with the storage name of the parent.
\<close>

theorem child_loads_use_parent_key:
  assumes U: "Unmarshal env jsonBytes = Inr decoded"
    and M: "\<forall>m\<in>set (Meshes decoded). \<not> mesh_fails env dirPath m"
    and F: "2 \<le> fuel"
  shows "\<exists>p s'. LoadComponentFromBytes fuel env s jsonBytes storageName dirPath = Some (Inr p, s')
           \<and> trace s' = trace s @ EvStore storageName p
               # map (\<lambda>cr. EvLoadChild (dirPath @ File cr) storageName)
                   (filter (\<lambda>cr. map_of (storage s') (snd (filepath_Split (File cr))) = None)
                      (ChildReferences decoded))"
proof -
  from LoadComponentFromBytes_loaded [OF U M F, of s storageName] show ?thesis
    by (auto simp: childLoads_def)
qed

text \<open>
  The instance: the table is loaded into a store that holds \<open>leg.json\<close>; of its three
  child references only \<open>gone.json\<close> is fetched.
\<close>

theorem child_loads_use_parent_key_witness:
  "Unmarshal ex_env ''T'' = Inr ex_Table \<and> list_all (\<lambda>m. \<not> mesh_fails ex_env ''assets/'' m) (Meshes ex_Table)
   \<and> (\<exists>p s'. LoadComponentFromBytes 2 ex_env ex_scene ''T'' ''big.json'' ''assets/'' = Some (Inr p, s')
        \<and> trace s' = trace ex_scene @ [EvStore ''big.json'' p, EvLoadChild ''assets/gone.json'' ''big.json''])"
proof -
  have U: "Unmarshal ex_env ''T'' = Inr ex_Table" by (simp add: ex_env_def)
  have M: "\<forall>m\<in>set (Meshes ex_Table). \<not> mesh_fails ex_env ''assets/'' m"
    by (simp add: mesh_fails_def ex_env_def ex_Table_def)
  have F: "(2::nat) \<le> 2" by simp
  from child_loads_use_parent_key [OF U M F, of ex_scene "''big.json''"]
  obtain p s' where
    l: "LoadComponentFromBytes 2 ex_env ex_scene ''T'' ''big.json'' ''assets/'' = Some (Inr p, s')"
    and t: "trace s' = trace ex_scene @ EvStore ''big.json'' p
               # map (\<lambda>cr. EvLoadChild (''assets/'' @ File cr) ''big.json'')
                   (filter (\<lambda>cr. map_of (storage s') (snd (filepath_Split (File cr))) = None)
                      (ChildReferences ex_Table))"
    by blast
  from LoadComponentFromBytes_loaded [OF U M F, of ex_scene "''big.json''"] l
  have "storage s' = AList.update ''big.json'' (next_addr ex_scene) (storage ex_scene)"
    by auto
  then have "storage s' = [(''table.json'', 0), (''leg.json'', 1), (''big.json'', 2)]"
    by (simp add: ex_scene_def AddComponent_def NewManager_def)
  with t have "trace s' = trace ex_scene @ [EvStore ''big.json'' p, EvLoadChild ''assets/gone.json'' ''big.json'']"
    by (simp add: ex_Table_def filepath_Split_def)
  with l U M show ?thesis by (auto simp: list_all_iff)
qed

text \<open>
  C5. In a load from bytes that reaches the child references, the first event of the
  call is the write of the component to the store under \<open>storageName\<close>, every recursive
  load of the call comes after a write of its storage name, and the name is a key of the
  store at the end.
\<close>

theorem stored_before_child_loads:
  assumes U: "Unmarshal env jsonBytes = Inr decoded"
    and M: "\<forall>m\<in>set (Meshes decoded). \<not> mesh_fails env dirPath m"
    and F: "2 \<le> fuel"
  shows "\<exists>p s'. LoadComponentFromBytes fuel env s jsonBytes storageName dirPath = Some (Inr p, s')
           \<and> take (length (trace s)) (trace s') = trace s
           \<and> hd (drop (length (trace s)) (trace s')) = EvStore storageName p
           \<and> stored_before_loads [] (drop (length (trace s)) (trace s'))
           \<and> map_of (storage s') storageName = Some p"
proof -
  from LoadComponentFromBytes_loaded [OF U M F, of s storageName] obtain s' where
    l: "LoadComponentFromBytes fuel env s jsonBytes storageName dirPath
          = Some (Inr (next_addr s), s')"
    and st: "storage s' = AList.update storageName (next_addr s) (storage s)"
    and tr: "trace s' = trace s @ EvStore storageName (next_addr s)
                 # childLoads dirPath storageName
                     (AList.update storageName (next_addr s) (storage s)) (ChildReferences decoded)"
    by blast
  have "stored_before_loads [] (drop (length (trace s)) (trace s'))"
    unfolding tr by (simp add: stored_before_loads_children)
  moreover have "map_of (storage s') storageName = Some (next_addr s)"
    unfolding st by (simp add: update_conv')
  ultimately show ?thesis using l tr by simp
qed

theorem stored_before_child_loads_witness:
  "Unmarshal ex_env ''A'' = Inr ex_A \<and> Meshes ex_A = [] \<and>
   (\<exists>p s'. LoadComponentFromBytes 2 ex_env ex_s0 ''A'' ''A.json'' ''assets/'' = Some (Inr p, s')
       \<and> take (length (trace ex_s0)) (trace s') = trace ex_s0
       \<and> hd (drop (length (trace ex_s0)) (trace s')) = EvStore ''A.json'' p
       \<and> stored_before_loads [] (drop (length (trace ex_s0)) (trace s'))
       \<and> map_of (storage s') ''A.json'' = Some p)"
proof -
  have U: "Unmarshal ex_env ''A'' = Inr ex_A" by (simp add: ex_env_def)
  have E: "Meshes ex_A = []" by (simp add: ex_A_def)
  then have M: "\<forall>m\<in>set (Meshes ex_A). \<not> mesh_fails ex_env ''assets/'' m" by simp
  have F: "(2::nat) \<le> 2" by simp
  from stored_before_child_loads [OF U M F] U E show ?thesis by blast
qed

text \<open>
  C6. When the JSON decodes and no mesh entry fails to load, a load from bytes returns
  the new component without an error and registers it under \<open>storageName\<close>, whatever
  the texture manager answers (\<open>lt\<close> is any \<open>LoadTexture\<close>).
\<close>

theorem texture_failures_not_fatal:
  assumes U: "Unmarshal env jsonBytes = Inr decoded"
    and M: "\<forall>m\<in>set (Meshes decoded). \<not> mesh_fails env dirPath m"
    and F: "2 \<le> fuel"
  shows "\<exists>p s'. LoadComponentFromBytes fuel (env\<lparr>LoadTexture := lt\<rparr>) s jsonBytes storageName dirPath
                  = Some (Inr p, s')
           \<and> fst (GetComponent s' storageName) = Some p
           \<and> Name (heap s' p) = Name decoded"
proof -
  let ?env = "env\<lparr>LoadTexture := lt\<rparr>"
  have U': "Unmarshal ?env jsonBytes = Inr decoded" using U by simp
  have M': "\<forall>m\<in>set (Meshes decoded). \<not> mesh_fails ?env dirPath m" using M by simp
  have "componentDirPath (((heap s)(next_addr s := decoded\<lparr>componentDirPath := dirPath\<rparr>)) (next_addr s))
          = dirPath" by simp
  with M' obtain ms where ms: "loadMeshes ?env ((heap s)(next_addr s := decoded\<lparr>componentDirPath := dirPath\<rparr>))
      (next_addr s) (Meshes decoded) = Inr ms"
    using loadMeshes_ok [where h = "(heap s)(next_addr s := decoded\<lparr>componentDirPath := dirPath\<rparr>)"
                           and p = "next_addr s" and dirPath = dirPath
                           and ms = "Meshes decoded" and env = ?env]
    by blast
  from F obtain k where k: "fuel = Suc (Suc k)"
    by (metis Suc_le_D numeral_2_eq_2 Suc_le_mono)
  from LoadComponentFromBytes_success [OF U' ms, of k storageName] obtain s' where
    "LoadComponentFromBytes fuel ?env s jsonBytes storageName dirPath = Some (Inr (next_addr s), s')"
    "storage s' = AList.update storageName (next_addr s) (storage s)"
    "heap s' = (heap s)(next_addr s := decoded\<lparr>componentDirPath := dirPath, Meshes := ms\<rparr>)"
    unfolding k by blast
  then show ?thesis
    by (simp add: GetComponent_def update_conv')
qed

text \<open>
  The instance: the table has a texture list and a diffuse texture, and the texture
  manager fails on both.
\<close>

theorem texture_failures_not_fatal_witness:
  "Unmarshal ex_env ''T'' = Inr ex_Table
   \<and> list_all (\<lambda>m. \<not> mesh_fails ex_env ''assets/'' m) (Meshes ex_Table)
   \<and> (\<exists>p s'. LoadComponentFromBytes 2 (ex_env\<lparr>LoadTexture := \<lambda>tm key path. (Inl ''no such texture'', tm)\<rparr>)
                 ex_s0 ''T'' ''table.json'' ''assets/'' = Some (Inr p, s')
        \<and> fst (GetComponent s' ''table.json'') = Some p
        \<and> Name (heap s' p) = Name ex_Table)"
proof -
  have U: "Unmarshal ex_env ''T'' = Inr ex_Table" by (simp add: ex_env_def)
  have M: "\<forall>m\<in>set (Meshes ex_Table). \<not> mesh_fails ex_env ''assets/'' m"
    by (simp add: mesh_fails_def ex_env_def ex_Table_def)
  have F: "(2::nat) \<le> 2" by simp
  from texture_failures_not_fatal [OF U M F] U M show ?thesis
    by (simp add: list_all_iff)
qed

text \<open>
  C7. The children that \<open>GetRenderableInstance\<close> attaches to the clone of the
  component's renderable are, in order, one for each child reference found in the
  store, and the location of each is the location of its reference, whatever
  \<open>GetRenderable\<close> gives for the child component.
\<close>

theorem child_location_is_reference_location:
  assumes "GetRenderableInstance fuel env s p = Some (r, s')"
  shows "\<exists>kids. Children r = Children (Clone (GetRenderable env (heap s p))) @ kids
           \<and> map rLocation kids = map Location (resolvable (storage s) (ChildReferences (heap s p)))"
  using assms by (rule GetRenderableInstance_kids)

text \<open>
  The instance: the leg's own renderable is at (2.0, 2.0, 2.0); the instances are at the
  locations of the two references.
\<close>

theorem child_location_is_reference_location_witness:
  "GetRenderableInstance 2 ex_env ex_scene 0
     = Some (Renderable (0, 0, 0) [Renderable (0x3F800000, 0, 0) [] 0, Renderable (0, 0, 0) [] 0] 0,
             Logsf ''ERROR'' (msgNotLoaded ''Table'' ''gone.json'') ex_scene)
   \<and> rLocation (GetRenderable ex_env ex_Leg) = (0x40000000, 0x40000000, 0x40000000)
   \<and> (\<exists>kids. Children (Renderable (0, 0, 0) [Renderable (0x3F800000, 0, 0) [] 0, Renderable (0, 0, 0) [] 0] 0)
                = Children (Clone (GetRenderable ex_env (heap ex_scene 0))) @ kids
           \<and> map rLocation kids
                = map Location (resolvable (storage ex_scene) (ChildReferences (heap ex_scene 0))))"
  using child_location_is_reference_location [OF ex_scene_instance] ex_scene_instance
  by (simp add: ex_env_def ex_Leg_def)

text \<open>
  C8, for a component whose chains of child references through the store end within
  \<open>n\<close> nested calls: \<open>GetRenderableInstance\<close> returns an instance, the store is
  unchanged, the instance has one more child for each child reference found in the
  store, and for each child reference not found the log holds the ERROR line.
\<close>

theorem missing_child_not_fatal:
  assumes R: "resolves_within n (storage s) (heap s) p"
  shows "\<exists>r s'. GetRenderableInstance n env s p = Some (r, s')
           \<and> storage s' = storage s
           \<and> length (Children r) = length (Children (GetRenderable env (heap s p)))
               + length (resolvable (storage s) (ChildReferences (heap s p)))
           \<and> (\<forall>cr\<in>set (ChildReferences (heap s p)).
                 map_of (storage s) (snd (filepath_Split (File cr))) = None \<longrightarrow>
                 (''ERROR'', msgNotLoaded (Name (heap s p)) (File cr)) \<in> set (log s'))"
proof -
  from GetRenderableInstance_total [OF R] obtain r s' where
    g: "GetRenderableInstance n env s p = Some (r, s')" by blast
  from R obtain k where k: "n = Suc k" by (cases n) auto
  from g have c:
    "cloneChildren k env p (ChildReferences (heap s p)) (Clone (GetRenderable env (heap s p))) s
       = Some (r, s')"
    unfolding k by (simp add: Let_def)
  from GetRenderableInstance_unchanged [OF g] have "storage s' = storage s"
    by (simp add: unchanged_def)
  moreover from GetRenderableInstance_kids [OF g] obtain kids where
    "Children r = Children (Clone (GetRenderable env (heap s p))) @ kids"
    "map rLocation kids = map Location (resolvable (storage s) (ChildReferences (heap s p)))"
    by blast
  then have "length (Children r) = length (Children (GetRenderable env (heap s p)))
               + length (resolvable (storage s) (ChildReferences (heap s p)))"
    by (metis length_append length_map length_Children_Clone)
  moreover have "\<forall>cr\<in>set (ChildReferences (heap s p)).
                 map_of (storage s) (snd (filepath_Split (File cr))) = None \<longrightarrow>
                 (''ERROR'', msgNotLoaded (Name (heap s p)) (File cr)) \<in> set (log s')"
    using cloneChildren_logged [OF c] by blast
  ultimately show ?thesis using g by blast
qed

theorem missing_child_not_fatal_witness:
  "resolves_within 2 (storage ex_scene) (heap ex_scene) 0
   \<and> map_of (storage ex_scene) ''gone.json'' = None
   \<and> (\<exists>r s'. GetRenderableInstance 2 ex_env ex_scene 0 = Some (r, s')
         \<and> storage s' = storage ex_scene
         \<and> length (Children r) = 2
         \<and> (''ERROR'', msgNotLoaded ''Table'' ''gone.json'') \<in> set (log s'))"
proof -
  have R: "resolves_within 2 (storage ex_scene) (heap ex_scene) 0"
    by (simp add: eval_nat_numeral ex_defs)
  have G: "map_of (storage ex_scene) ''gone.json'' = None"
    by (simp add: ex_defs)
  from missing_child_not_fatal [OF R, of ex_env] obtain r s' where
    g: "GetRenderableInstance 2 ex_env ex_scene 0 = Some (r, s')"
    and st: "storage s' = storage ex_scene"
    and len: "length (Children r) = length (Children (GetRenderable ex_env (heap ex_scene 0)))
               + length (resolvable (storage ex_scene) (ChildReferences (heap ex_scene 0)))"
    and lg: "\<forall>cr\<in>set (ChildReferences (heap ex_scene 0)).
                 map_of (storage ex_scene) (snd (filepath_Split (File cr))) = None \<longrightarrow>
                 (''ERROR'', msgNotLoaded (Name (heap ex_scene 0)) (File cr)) \<in> set (log s')"
    by blast
  from len have "length (Children r) = 2"
    by (simp add: ex_defs resolvable_def)
  moreover from lg have "(''ERROR'', msgNotLoaded ''Table'' ''gone.json'') \<in> set (log s')"
    by (simp add: ex_defs)
  ultimately show ?thesis using R G g st by blast
qed

text \<open>
  Without that condition the call need not return: the component that
  \<open>LoadComponentFromFile\<close> registers for a file listing a missing file and itself is
  instanced inside its own instancing, at every depth.
\<close>

theorem cyclic_instancing_never_returns:
  "LoadComponentFromFile 3 ex_env ex_s0 ''assets/self.json'' ''self.json'' = Some (Inr 0, ex_cyc)
   \<and> fst (GetComponent ex_cyc ''gone.json'') = None
   \<and> fst (GetComponent ex_cyc ''self.json'') = Some 0
   \<and> map File (ChildReferences (heap ex_cyc 0)) = [''gone.json'', ''self.json'']
   \<and> (\<forall>fuel. GetRenderableInstance fuel ex_env ex_cyc 0 = None)"
proof -
  have l: "LoadComponentFromFile 3 ex_env ex_s0 ''assets/self.json'' ''self.json''
             = Some (Inr 0, ex_cyc)"
    by (simp add: eval_nat_numeral ex_defs Let_def)
  have "storage ex_cyc = [(''self.json'', 0)]"
    "ChildReferences (heap ex_cyc 0) = ChildReferences ex_Self"
    by (simp_all add: ex_cyc_def)
  then have "\<forall>fuel. GetRenderableInstance fuel ex_env ex_cyc 0 = None"
    by (simp add: cyclic_instancing_diverges)
  with l show ?thesis
    by (simp add: ex_cyc_def GetComponent_def ex_Self_def)
qed

text \<open>
  C9. \<open>Destroy\<close> invokes \<open>Component.Destroy\<close> on the component of every entry of the
  store, and afterwards the store is empty: \<open>GetComponent\<close> finds no name.
\<close>

theorem Destroy_clears_store:
  "destroyed (Destroy s) = destroyed s @ map snd (storage s)
   \<and> storage (Destroy s) = []
   \<and> GetComponent (Destroy s) name = (None, False)"
  by (simp add: Destroy_def fold_Component_Destroy GetComponent_def)

text \<open>
  C10. The instance made for the \<open>i\<close>-th child reference found in the store has the
  location of that reference; when that location is the zero vector (a reference
  decoded from JSON without a location) the instance is at the zero vector.
\<close>

theorem child_location_always_overwritten:
  assumes G: "GetRenderableInstance fuel env s p = Some (r, s')"
    and I: "i < length (resolvable (storage s) (ChildReferences (heap s p)))"
  shows "length (Children (GetRenderable env (heap s p))) + i < length (Children r)
         \<and> rLocation (Children r ! (length (Children (GetRenderable env (heap s p))) + i))
             = Location (resolvable (storage s) (ChildReferences (heap s p)) ! i)
         \<and> (Location (resolvable (storage s) (ChildReferences (heap s p)) ! i) = (0, 0, 0) \<longrightarrow>
            rLocation (Children r ! (length (Children (GetRenderable env (heap s p))) + i)) = (0, 0, 0))"
proof -
  let ?res = "resolvable (storage s) (ChildReferences (heap s p))"
  let ?n0 = "length (Children (GetRenderable env (heap s p)))"
  from GetRenderableInstance_kids [OF G] obtain kids where
    c: "Children r = Children (Clone (GetRenderable env (heap s p))) @ kids"
    and m: "map rLocation kids = map Location ?res"
    by blast
  from m have len: "length kids = length ?res" by (metis length_map)
  have n0: "length (Children (Clone (GetRenderable env (heap s p)))) = ?n0"
    by (rule length_Children_Clone)
  from c n0 have nth: "Children r ! (?n0 + i) = kids ! i"
    by (metis nth_append_length_plus)
  from I len have "rLocation (kids ! i) = Location (?res ! i)"
    by (metis m nth_map)
  with nth have "rLocation (Children r ! (?n0 + i)) = Location (?res ! i)" by simp
  moreover from c n0 len I have "?n0 + i < length (Children r)" by simp
  ultimately show ?thesis by simp
qed

text \<open>
  The instance: the second reference to the leg has no location, the leg's own
  renderable is at (2.0, 2.0, 2.0), and the second instance is at the zero vector.
\<close>

theorem child_location_always_overwritten_witness:
  "GetRenderableInstance 2 ex_env ex_scene 0
     = Some (Renderable (0, 0, 0) [Renderable (0x3F800000, 0, 0) [] 0, Renderable (0, 0, 0) [] 0] 0,
             Logsf ''ERROR'' (msgNotLoaded ''Table'' ''gone.json'') ex_scene)
   \<and> resolvable (storage ex_scene) (ChildReferences (heap ex_scene 0)) ! 1
       = \<lparr>File = ''parts/leg.json'', Location = (0, 0, 0)\<rparr>
   \<and> rLocation (GetRenderable ex_env (heap ex_scene 1)) = (0x40000000, 0x40000000, 0x40000000)
   \<and> rLocation (Children (Renderable (0, 0, 0)
        [Renderable (0x3F800000, 0, 0) [] 0, Renderable (0, 0, 0) [] 0] 0) ! (0 + 1)) = (0, 0, 0)"
proof -
  have I: "1 < length (resolvable (storage ex_scene) (ChildReferences (heap ex_scene 0)))"
    by (simp add: ex_defs resolvable_def)
  have n0: "length (Children (GetRenderable ex_env (heap ex_scene 0))) = 0"
    by (simp add: ex_defs)
  have r1: "resolvable (storage ex_scene) (ChildReferences (heap ex_scene 0)) ! 1
       = \<lparr>File = ''parts/leg.json'', Location = (0, 0, 0)\<rparr>"
    by (simp add: ex_defs resolvable_def)
  have leg: "rLocation (GetRenderable ex_env (heap ex_scene 1)) = (0x40000000, 0x40000000, 0x40000000)"
    by (simp add: ex_defs)
  from child_location_always_overwritten [OF ex_scene_instance I] n0 r1
  have "rLocation (Children (Renderable (0, 0, 0)
        [Renderable (0x3F800000, 0, 0) [] 0, Renderable (0, 0, 0) [] 0] 0) ! (0 + 1)) = (0, 0, 0)"
    by simp
  with ex_scene_instance r1 leg show ?thesis by blast
qed

end
